theory Spec2Isabelle
  imports Complex_Main "HOL-Library.Sublist" "HOL-Library.Word"
begin

section \<open>JavaScript values\<close>

text \<open>
  Parsed JSON as the handlers see it.  A property that is missing (JavaScript's
  \<^verbatim>\<open>undefined\<close>) is \<open>None\<close> of type \<open>json option\<close>.  A number is the real that it
  denotes; numbers are only ever tested for truthiness or copied.
\<close>

datatype json =
    JNull
  | JBool bool
  | JNum real
  | JStr string
  | JArr "json list"
  | JObj "(string \<times> json) list"

text \<open>JavaScript truthiness, as used by \<^verbatim>\<open>!x\<close>, \<^verbatim>\<open>x || y\<close> and \<^verbatim>\<open>if (x)\<close>.\<close>

fun truthy :: "json \<Rightarrow> bool" where
  "truthy JNull = False"
| "truthy (JBool b) = b"
| "truthy (JNum n) = (n \<noteq> 0)"
| "truthy (JStr s) = (s \<noteq> [])"
| "truthy (JArr xs) = True"
| "truthy (JObj kvs) = True"

definition truthy_opt :: "json option \<Rightarrow> bool" where
  "truthy_opt v = (case v of None \<Rightarrow> False | Some x \<Rightarrow> truthy x)"

text \<open>\<^verbatim>\<open>a || b\<close> on possibly undefined values.\<close>

definition js_or :: "json option \<Rightarrow> json option \<Rightarrow> json option" where
  "js_or a b = (if truthy_opt a then a else b)"

text \<open>
  Optional chaining \<^verbatim>\<open>v?.k\<close>: undefined on \<^verbatim>\<open>undefined\<close> and \<^verbatim>\<open>null\<close>, the own property
  of an object, and undefined on every other value (none of the keys that this program
  reads is a property of a string, a number, a boolean or an array).
\<close>

fun opt_chain :: "json option \<Rightarrow> string \<Rightarrow> json option" where
  "opt_chain (Some (JObj kvs)) k = map_of kvs k"
| "opt_chain v k = None"

section \<open>Requests, responses and middleware\<close>

record request =
  req_method :: string
  req_path :: "string list"
  req_cookies :: "(string \<times> json) list"
  req_headers :: "(string \<times> string) list"
  req_ip :: string
  req_user :: "json option"

record cookie_opts =
  httpOnly :: bool
  secure :: bool
  sameSite :: string
  maxAge :: "nat option"
  cookie_path :: string

datatype cookie_op =
    SetCookie string string cookie_opts
  | ClearCookie string cookie_opts

record response =
  res_status :: nat
  res_cookies :: "cookie_op list"
  res_body :: "json option"

text \<open>A fresh Express response: status 200, no header written, no body.\<close>

definition res0 :: response where
  "res0 = \<lparr>res_status = 200, res_cookies = [], res_body = None\<rparr>"

text \<open>
  A middleware either calls \<^verbatim>\<open>next()\<close>, handing on the (possibly changed) request and
  response, or sends the response and ends the chain.
\<close>

datatype stage = Next request response | Sent response

type_synonym middleware = "request \<Rightarrow> response \<Rightarrow> stage"

definition cookie :: "request \<Rightarrow> string \<Rightarrow> json option" where
  "cookie req name = map_of (req_cookies req) name"

definition header :: "request \<Rightarrow> string \<Rightarrow> string option" where
  "header req name = map_of (req_headers req) name"

text \<open>\<^verbatim>\<open>res.status(n).json(body)\<close>\<close>

definition send_json :: "nat \<Rightarrow> json \<Rightarrow> response \<Rightarrow> response" where
  "send_json n b res = res\<lparr>res_status := n, res_body := Some b\<rparr>"

text \<open>\<^verbatim>\<open>res.json(body)\<close>: the status stays as it is.\<close>

definition json_reply :: "json \<Rightarrow> response \<Rightarrow> response" where
  "json_reply b res = res\<lparr>res_body := Some b\<rparr>"

section \<open>CSRF guard (middleware/csrf.js)\<close>

definition csrf_failure_body :: json where
  "csrf_failure_body = JObj
     [(''success'', JBool False),
      (''error'', JStr ''Invalid CSRF token''),
      (''message'', JStr ''CSRF token validation failed. Please refresh and try again.''),
      (''code'', JStr ''CSRF_VALIDATION_FAILED'')]"

text \<open>
  \<^verbatim>\<open>cookieToken !== headerToken\<close> compares a cookie value (a string, or whatever a JSON
  cookie parsed to) with a header string without coercion.
\<close>

definition strict_neq :: "json option \<Rightarrow> string option \<Rightarrow> bool" where
  "strict_neq c h = (case (c, h) of
       (None, None) \<Rightarrow> False
     | (Some (JStr s), Some t) \<Rightarrow> s \<noteq> t
     | _ \<Rightarrow> True)"

definition validateCSRF :: middleware where
  "validateCSRF req res =
     (if req_method req \<in> set [''GET'', ''HEAD'', ''OPTIONS''] then Next req res
      else
        let cookieToken = cookie req ''XSRF-TOKEN'';
            headerToken = header req ''x-csrf-token''
        in if \<not> truthy_opt cookieToken
              \<or> \<not> truthy_opt (map_option JStr headerToken)
              \<or> strict_neq cookieToken headerToken
           then Sent (send_json 403 csrf_failure_body res)
           else Next req res)"

text \<open>
  \<^verbatim>\<open>crypto.randomBytes(32).toString('hex')\<close>: the random bytes are an input of the model,
  rendered as two lower-case hexadecimal digits each.
\<close>

definition hex_digit :: "nat \<Rightarrow> char" where
  "hex_digit n = ''0123456789abcdef'' ! (n mod 16)"

definition to_hex :: "8 word list \<Rightarrow> string" where
  "to_hex bs = concat (map (\<lambda>b. [hex_digit (unat b div 16), hex_digit (unat b mod 16)]) bs)"

text \<open>\<open>node_env\<close> is \<^verbatim>\<open>process.env.NODE_ENV\<close>.\<close>

definition csrf_cookie_opts :: "string option \<Rightarrow> cookie_opts" where
  "csrf_cookie_opts node_env =
     \<lparr>httpOnly = False, secure = (node_env = Some ''production''), sameSite = ''lax'',
      maxAge = Some (24 * 60 * 60 * 1000), cookie_path = ''/''\<rparr>"

definition generateCSRFToken :: "string option \<Rightarrow> 8 word list \<Rightarrow> response \<Rightarrow> string \<times> response" where
  "generateCSRFToken node_env rnd res =
     (let token = to_hex rnd
      in (token, res\<lparr>res_cookies := res_cookies res @
                          [SetCookie ''XSRF-TOKEN'' token (csrf_cookie_opts node_env)]\<rparr>))"

text \<open>\<open>now\<close> is \<^verbatim>\<open>new Date().toISOString()\<close>.\<close>

definition csrfTokenHandler :: "string option \<Rightarrow> 8 word list \<Rightarrow> string \<Rightarrow> request \<Rightarrow> response \<Rightarrow> response" where
  "csrfTokenHandler node_env rnd now req res =
     (let (token, res') = generateCSRFToken node_env rnd res
      in json_reply (JObj
           [(''success'', JBool True),
            (''message'', JStr ''CSRF token generated successfully''),
            (''data'', JObj [(''token'', JStr token), (''expiresIn'', JStr ''24h'')]),
            (''meta'', JObj [(''timestamp'', JStr now)])]) res')"

definition autoGenerateCSRF :: "string option \<Rightarrow> 8 word list \<Rightarrow> middleware" where
  "autoGenerateCSRF node_env rnd req res =
     (if req_method req = ''GET'' \<and> \<not> truthy_opt (cookie req ''XSRF-TOKEN'')
      then Next req (snd (generateCSRFToken node_env rnd res))
      else Next req res)"

section \<open>Session guard (middleware/auth.js)\<close>

text \<open>A thrown JavaScript error, with the fields the catch blocks read.\<close>

record js_error =
  err_name :: string
  err_message :: string
  err_statusCode :: "nat option"

text \<open>\<^verbatim>\<open>createError\<close> builds an \<^verbatim>\<open>ApiError\<close>, whose \<^verbatim>\<open>name\<close> is the inherited \<^verbatim>\<open>'Error'\<close>.\<close>

definition createError :: "nat \<Rightarrow> string \<Rightarrow> js_error" where
  "createError statusCode message =
     \<lparr>err_name = ''Error'', err_message = message, err_statusCode = Some statusCode\<rparr>"

definition COOKIE_NAME :: string where
  "COOKIE_NAME = ''authToken''"

definition clearAuthCookie :: "string option \<Rightarrow> response \<Rightarrow> response" where
  "clearAuthCookie node_env res =
     res\<lparr>res_cookies := res_cookies res @
            [ClearCookie COOKIE_NAME
               \<lparr>httpOnly = True, secure = (node_env = Some ''production''), sameSite = ''lax'',
                maxAge = None, cookie_path = ''/''\<rparr>]\<rparr>"

text \<open>
  \<^verbatim>\<open>verifyToken\<close> calls the jsonwebtoken library with the configured secret, issuer and
  audience.  The library is a parameter \<open>verify\<close> of the model: it returns the decoded
  claims or throws an error whose \<^verbatim>\<open>name\<close> is \<^verbatim>\<open>JsonWebTokenError\<close> (bad signature,
  malformed token, wrong issuer or audience), \<^verbatim>\<open>TokenExpiredError\<close> or \<^verbatim>\<open>NotBeforeError\<close>.
\<close>

type_synonym verifier = "json \<Rightarrow> js_error + json"

text \<open>The \<^verbatim>\<open>try\<close> block of \<^verbatim>\<open>authenticateToken\<close> up to the assignment of \<^verbatim>\<open>req.user\<close>.\<close>

definition read_session :: "verifier \<Rightarrow> request \<Rightarrow> js_error + json" where
  "read_session verify req =
     (case cookie req COOKIE_NAME of
        None \<Rightarrow> Inl (createError 401 ''Authentication required - No token provided'')
      | Some token \<Rightarrow>
          if \<not> truthy token
          then Inl (createError 401 ''Authentication required - No token provided'')
          else verify token)"

text \<open>\<^verbatim>\<open>error.statusCode || 500\<close> and \<^verbatim>\<open>error.message || 'Authentication failed'\<close>.\<close>

definition status_or_500 :: "js_error \<Rightarrow> nat" where
  "status_or_500 e = (case err_statusCode e of None \<Rightarrow> 500 | Some n \<Rightarrow> if n = 0 then 500 else n)"

definition message_or :: "js_error \<Rightarrow> string \<Rightarrow> string" where
  "message_or e d = (if err_message e = [] then d else err_message e)"

definition authenticateToken :: "string option \<Rightarrow> verifier \<Rightarrow> middleware" where
  "authenticateToken node_env verify req res =
     (case read_session verify req of
        Inr decoded \<Rightarrow> Next (req\<lparr>req_user := Some decoded\<rparr>) res
      | Inl error \<Rightarrow>
          if err_name error = ''JsonWebTokenError''
          then Sent (send_json 401 (JObj
                 [(''success'', JBool False),
                  (''error'', JStr ''Invalid authentication token'')]) res)
          else if err_name error = ''TokenExpiredError''
          then Sent (send_json 401 (JObj
                 [(''success'', JBool False),
                  (''error'', JStr ''Authentication token expired''),
                  (''action'', JStr ''login_required'')]) (clearAuthCookie node_env res))
          else Sent (send_json (status_or_500 error) (JObj
                 [(''success'', JBool False),
                  (''error'', JStr (message_or error ''Authentication failed''))]) res))"

definition optionalAuth :: "verifier \<Rightarrow> middleware" where
  "optionalAuth verify req res =
     (case cookie req COOKIE_NAME of
        None \<Rightarrow> Next req res
      | Some token \<Rightarrow>
          if truthy token
          then (case verify token of
                  Inr decoded \<Rightarrow> Next (req\<lparr>req_user := Some decoded\<rparr>) res
                | Inl error \<Rightarrow> Next req res)
          else Next req res)"

section \<open>Logout route (routes/auth.js) and the application stack (app.js)\<close>

definition logout_handler :: "string option \<Rightarrow> string \<Rightarrow> request \<Rightarrow> response \<Rightarrow> response" where
  "logout_handler node_env now req res =
     json_reply (JObj
       [(''success'', JBool True),
        (''message'', JStr ''Logout successful''),
        (''data'', JObj [(''loggedOut'', JBool True)]),
        (''meta'', JObj [(''timestamp'', JStr now)])]) (clearAuthCookie node_env res)"

text \<open>Run a middleware, then the rest of the chain unless the response was sent.\<close>

definition and_then :: "stage \<Rightarrow> (request \<Rightarrow> response \<Rightarrow> response) \<Rightarrow> response" where
  "and_then st k = (case st of Sent r \<Rightarrow> r | Next req res \<Rightarrow> k req res)"

text \<open>
  \<^verbatim>\<open>app.use(prefix, mw)\<close>: the middleware runs on the paths that start with the segments
  of the mount point.  Paths are lists of segments, in the letter case the routes are
  written in.
\<close>

definition mount :: "string list \<Rightarrow> middleware \<Rightarrow> middleware" where
  "mount pre mw req res = (if prefix pre (req_path req) then mw req res else Next req res)"

text \<open>
  \<^verbatim>\<open>router.post('/logout', optionalAuth, handler)\<close> under \<^verbatim>\<open>app.use('/api/auth', authRoutes)\<close>;
  every other request goes on to \<open>rest\<close>, the remaining routes.
\<close>

definition logout_route ::
  "string option \<Rightarrow> verifier \<Rightarrow> string \<Rightarrow> (request \<Rightarrow> response \<Rightarrow> response) \<Rightarrow> request \<Rightarrow> response \<Rightarrow> response" where
  "logout_route node_env verify now rest req res =
     (if req_method req = ''POST'' \<and> req_path req = [''api'', ''auth'', ''logout'']
      then and_then (optionalAuth verify req res) (logout_handler node_env now)
      else rest req res)"

text \<open>
  The application stack from the cookie parser on: token auto-issuance, the token
  endpoint (Express serves HEAD from a GET route), the CSRF guard on \<^verbatim>\<open>/api\<close>, then the
  routes.  \<open>rnd1\<close> and \<open>rnd2\<close> are the random bytes of the two possible mints.
\<close>

definition app ::
  "string option \<Rightarrow> 8 word list \<Rightarrow> 8 word list \<Rightarrow> string \<Rightarrow> (request \<Rightarrow> response \<Rightarrow> response) \<Rightarrow> request \<Rightarrow> response" where
  "app node_env rnd1 rnd2 now routes req =
     and_then (autoGenerateCSRF node_env rnd1 req res0) (\<lambda>req1 res1.
       if req_method req1 \<in> set [''GET'', ''HEAD''] \<and> req_path req1 = [''api'', ''csrf-token'']
       then csrfTokenHandler node_env rnd2 now req1 res1
       else and_then (mount [''api''] validateCSRF req1 res1) routes)"

section \<open>Strict rate limiter (middleware/security.js)\<close>

text \<open>
  The options object handed to \<^verbatim>\<open>rateLimit\<close>: window length in milliseconds, ceiling,
  the \<^verbatim>\<open>skip\<close> predicate and the \<^verbatim>\<open>handler\<close> that answers a rejected request.
\<close>

record limiter_options =
  windowMs :: nat
  max_hits :: nat
  skip :: "request \<Rightarrow> bool"
  handler :: "request \<Rightarrow> response \<Rightarrow> response"

text \<open>The counter table: client key to (count, window start).\<close>

type_synonym limiter_state = "string \<Rightarrow> (nat \<times> nat) option"

text \<open>Modelled from the spec: the counting done by \<^verbatim>\<open>rateLimit\<close> of the express-rate-limit
  package, which the sources only configure.  The spec describes a fixed window counter
  keyed by client address, held in a mapping from client key to (count, window-start);
  exceeding the ceiling answers through the handler, and counters reset at the window
  boundary.  \<open>now\<close> is the clock in milliseconds.  A skipped request is not counted.
\<close>

definition rateLimit ::
  "limiter_options \<Rightarrow> limiter_state \<Rightarrow> nat \<Rightarrow> request \<Rightarrow> response \<Rightarrow> limiter_state \<times> stage" where
  "rateLimit opts st now req res =
     (if skip opts req then (st, Next req res)
      else
        let key = req_ip req;
            entry = (case st key of
                       None \<Rightarrow> (1, now)
                     | Some (count, start) \<Rightarrow>
                         if now < start + windowMs opts then (count + 1, start) else (1, now));
            st' = st(key \<mapsto> entry)
        in if fst entry > max_hits opts then (st', Sent (handler opts req res))
           else (st', Next req res))"

definition strict_options :: limiter_options where
  "strict_options =
     \<lparr>windowMs = 15 * 60 * 1000,
      max_hits = 20,
      skip = (\<lambda>req. req_method req \<notin> set [''POST'', ''PUT'', ''DELETE'', ''PATCH'']),
      handler = (\<lambda>req res. send_json 429 (JObj
         [(''error'', JStr ''Write operation rate limit exceeded''),
          (''message'', JStr ''Too many write operations from this IP, please try again later.''),
          (''retryAfter'', JStr ''15 minutes'')]) res)\<rparr>"

definition strictLimiter :: "limiter_state \<Rightarrow> nat \<Rightarrow> request \<Rightarrow> response \<Rightarrow> limiter_state \<times> stage" where
  "strictLimiter = rateLimit strict_options"

text \<open>The limiter run over a sequence of timed requests, the table threaded through.\<close>

fun run_limiter :: "limiter_state \<Rightarrow> (nat \<times> request) list \<Rightarrow> stage list" where
  "run_limiter st [] = []"
| "run_limiter st (ev # evs) =
     (let (st', out) = strictLimiter st (fst ev) (snd ev) res0
      in out # run_limiter st' evs)"

section \<open>Chart documents and the chart routes (chartModel.js, routes/charts.js)\<close>

text \<open>
  A stored chart, as the schema types it; a stored document may lack the payload.  The
  collection maps the document identifier to the document; identifiers are unique, as the
  store's index on \<^verbatim>\<open>_id\<close> has it.
\<close>

record chart =
  plotlyData :: "json option"
  chartTitle :: string
  description :: "string option"
  tags :: "string list"
  createdAt :: nat
  updatedAt :: nat

type_synonym collection = "string \<Rightarrow> chart option"

text \<open>
  The fields of a request body that the chart routes read: the title and the description
  are strings when present, the tags an array of strings.
\<close>

record chart_body =
  body_plotlyData :: "json option"
  body_chartTitle :: "string option"
  body_description :: "string option"
  body_tags :: "string list option"

subsection \<open>Listing\<close>







subsection \<open>Creation\<close>

text \<open>
  \<^verbatim>\<open>isValidPlotlyData\<close> of the validation middleware: a truthy object (or array) with a
  truthy \<^verbatim>\<open>data\<close> or \<^verbatim>\<open>layout\<close>, whose \<^verbatim>\<open>data\<close>, when truthy, is an array.
\<close>

definition isValidPlotlyData :: "json \<Rightarrow> bool" where
  "isValidPlotlyData d =
     (truthy d \<and>
      (case d of JObj kvs \<Rightarrow> True | JArr xs \<Rightarrow> True | _ \<Rightarrow> False) \<and>
      truthy_opt (js_or (opt_chain (Some d) ''data'') (opt_chain (Some d) ''layout'')) \<and>
      (case js_or (opt_chain (Some d) ''data'') (Some (JArr [])) of
         Some (JArr xs) \<Rightarrow> True
       | _ \<Rightarrow> False))"

text \<open>
  \<^verbatim>\<open>req.body.chartTitle || req.body.plotlyData?.layout?.title?.text || 'Untitled Chart'\<close>
\<close>

definition derive_title :: "chart_body \<Rightarrow> json option" where
  "derive_title b =
     js_or (js_or (map_option JStr (body_chartTitle b))
                  (opt_chain (opt_chain (opt_chain (body_plotlyData b) ''layout'') ''title'') ''text''))
           (Some (JStr ''Untitled Chart''))"

text \<open>
  What the handlers rely on in the store's library (mongoose), which is not part of the
  sources: a parameter of the model.  \<open>minimize\<close> is what \<^verbatim>\<open>save()\<close> keeps of a Mixed value
  under the schema's default \<^verbatim>\<open>minimize\<close> option, which strips empty objects (\<open>None\<close> when
  nothing is left); \<open>cast_other\<close> is the cast to a String path of a value that is not a
  string, which yields a string or refuses the value.
\<close>

record odm =
  minimize :: "json \<Rightarrow> json option"
  cast_other :: "json \<Rightarrow> js_error + string"

text \<open>The cast of a value to a String path: a string is kept as it is.\<close>

definition castString :: "odm \<Rightarrow> json \<Rightarrow> js_error + string" where
  "castString lib v = (case v of JStr s \<Rightarrow> Inr s | _ \<Rightarrow> cast_other lib v)"

text \<open>
  A document as a handler builds it with \<^verbatim>\<open>new Chart({...})\<close>, and \<^verbatim>\<open>doc.save()\<close> of it.
  The schema requires the payload: an \<^verbatim>\<open>undefined\<close> or \<^verbatim>\<open>null\<close> one fails the validation.
  The identifier \<open>nid\<close> is the fresh \<^verbatim>\<open>ObjectId\<close> minted for the document, and the store
  refuses a second document under an identifier it already holds.  What is stored is the
  document with its payload minimized; the timestamps are those of the save.
\<close>

definition save_new :: "odm \<Rightarrow> collection \<Rightarrow> string \<Rightarrow> chart \<Rightarrow> js_error + (collection \<times> chart)" where
  "save_new lib db nid c =
     (case plotlyData c of
        None \<Rightarrow> Inl \<lparr>err_name = ''ValidationError'',
                       err_message = ''Path `plotlyData` is required.'', err_statusCode = None\<rparr>
      | Some pd \<Rightarrow>
          if pd = JNull
          then Inl \<lparr>err_name = ''ValidationError'',
                     err_message = ''Path `plotlyData` is required.'', err_statusCode = None\<rparr>
          else (case db nid of
                  Some old \<Rightarrow> Inl \<lparr>err_name = ''MongoServerError'',
                                   err_message = ''E11000 duplicate key error'',
                                   err_statusCode = None\<rparr>
                | None \<Rightarrow>
                    let saved = c\<lparr>plotlyData := minimize lib pd\<rparr>
                    in Inr (db(nid \<mapsto> saved), saved)))"

text \<open>
  What a chart route replies with: status, message, identifier and the document as it
  is stored.
\<close>

record chart_reply =
  reply_status :: nat
  reply_message :: string
  reply_id :: string
  reply_chart :: chart

text \<open>
  The handler of \<^verbatim>\<open>POST /api/charts\<close>.  A thrown error goes to the error handler (\<open>Inl\<close>).
  The derived title is cast to the schema's String.
\<close>

definition create_chart ::
  "odm \<Rightarrow> collection \<Rightarrow> string \<Rightarrow> nat \<Rightarrow> chart_body \<Rightarrow> js_error + (collection \<times> chart_reply)" where
  "create_chart lib db nid now b =
     (case castString lib (case derive_title b of None \<Rightarrow> JNull | Some t \<Rightarrow> t) of
        Inl e \<Rightarrow> Inl e
      | Inr title \<Rightarrow>
          let newChart =
                \<lparr>plotlyData = body_plotlyData b,
                 chartTitle = title,
                 description = Some (case body_description b of None \<Rightarrow> [] | Some d \<Rightarrow> d),
                 tags = (case body_tags b of None \<Rightarrow> [] | Some ts \<Rightarrow> ts),
                 createdAt = now,
                 updatedAt = now\<rparr>
          in (case save_new lib db nid newChart of
                Inl e \<Rightarrow> Inl e
              | Inr (db', savedChart) \<Rightarrow>
                  Inr (db', \<lparr>reply_status = 201, reply_message = ''Chart created successfully'',
                             reply_id = nid, reply_chart = savedChart\<rparr>)))"


subsection \<open>Update\<close>

record update_data =
  upd_plotlyData :: "json option"
  upd_chartTitle :: "string option"
  upd_description :: "string option"
  upd_tags :: "string list option"
  upd_updatedAt :: nat

text \<open>
  The \<^verbatim>\<open>updateData\<close> object that the handler of \<^verbatim>\<open>PUT /api/charts/:id\<close> builds from the
  body it reads.  An array of tags is truthy, also the empty one.
\<close>

definition build_update :: "chart_body \<Rightarrow> nat \<Rightarrow> update_data" where
  "build_update b now =
     \<lparr>upd_plotlyData = (if truthy_opt (body_plotlyData b) then body_plotlyData b else None),
      upd_chartTitle = (if truthy_opt (map_option JStr (body_chartTitle b))
                        then body_chartTitle b else None),
      upd_description = body_description b,
      upd_tags = body_tags b,
      upd_updatedAt = now\<rparr>"

text \<open>\<^verbatim>\<open>findByIdAndUpdate\<close> sets the fields that the update names and no other.\<close>

definition apply_update :: "update_data \<Rightarrow> chart \<Rightarrow> chart" where
  "apply_update u c =
     c\<lparr>plotlyData := (case upd_plotlyData u of None \<Rightarrow> plotlyData c | Some v \<Rightarrow> Some v),
       chartTitle := (case upd_chartTitle u of None \<Rightarrow> chartTitle c | Some v \<Rightarrow> v),
       description := (case upd_description u of None \<Rightarrow> description c | Some v \<Rightarrow> Some v),
       tags := (case upd_tags u of None \<Rightarrow> tags c | Some v \<Rightarrow> v),
       updatedAt := upd_updatedAt u\<rparr>"

definition findByIdAndUpdate :: "collection \<Rightarrow> string \<Rightarrow> update_data \<Rightarrow> collection \<times> chart option" where
  "findByIdAndUpdate db cid u =
     (case db cid of
        None \<Rightarrow> (db, None)
      | Some c \<Rightarrow> (db(cid \<mapsto> apply_update u c), Some (apply_update u c)))"

definition update_chart ::
  "collection \<Rightarrow> string \<Rightarrow> nat \<Rightarrow> chart_body \<Rightarrow> js_error + (collection \<times> chart_reply)" where
  "update_chart db cid now b =
     (case findByIdAndUpdate db cid (build_update b now) of
        (db', None) \<Rightarrow> Inl (createError 404 ''Chart not found'')
      | (db', Some updatedChart) \<Rightarrow>
          Inr (db', \<lparr>reply_status = 200, reply_message = ''Chart updated successfully'',
                     reply_id = cid, reply_chart = updatedChart\<rparr>))"







subsection \<open>Duplication\<close>

text \<open>The handler of \<^verbatim>\<open>POST /api/charts/:id/duplicate\<close>.\<close>

definition duplicate_chart ::
  "odm \<Rightarrow> collection \<Rightarrow> string \<Rightarrow> string \<Rightarrow> nat \<Rightarrow> js_error + (collection \<times> chart_reply)" where
  "duplicate_chart lib db cid nid now =
     (case db cid of
        None \<Rightarrow> Inl (createError 404 ''Chart not found'')
      | Some originalChart \<Rightarrow>
          let duplicateChart =
                \<lparr>plotlyData = plotlyData originalChart,
                 chartTitle = chartTitle originalChart @ '' (Copy)'',
                 description = description originalChart,
                 tags = tags originalChart,
                 createdAt = now,
                 updatedAt = now\<rparr>
          in (case save_new lib db nid duplicateChart of
                Inl e \<Rightarrow> Inl e
              | Inr (db', savedDuplicate) \<Rightarrow>
                  Inr (db', \<lparr>reply_status = 201, reply_message = ''Chart duplicated successfully'',
                             reply_id = nid, reply_chart = savedDuplicate\<rparr>)))"

section \<open>Notions used in the statements\<close>

text \<open>The response a stage carries, sent or still being built.\<close>

fun stage_response :: "stage \<Rightarrow> response" where
  "stage_response (Next req res) = res"
| "stage_response (Sent res) = res"

fun passes :: "stage \<Rightarrow> bool" where
  "passes (Next req res) = True"
| "passes (Sent res) = False"

definition is_2xx :: "response \<Rightarrow> bool" where
  "is_2xx r = (200 \<le> res_status r \<and> res_status r < 300)"

definition safe_method :: "request \<Rightarrow> bool" where
  "safe_method req = (req_method req \<in> set [''GET'', ''HEAD'', ''OPTIONS''])"

definition under_api :: "request \<Rightarrow> bool" where
  "under_api req = prefix [''api''] (req_path req)"

text \<open>
  Both tokens present (defined) and string-equal: the cookie is a string and the header
  carries the same string.
\<close>

definition tokens_present_equal :: "request \<Rightarrow> bool" where
  "tokens_present_equal req =
     (case (cookie req ''XSRF-TOKEN'', header req ''x-csrf-token'') of
        (Some (JStr s), Some t) \<Rightarrow> s = t
      | _ \<Rightarrow> False)"

text \<open>Both tokens present, string-equal and not the empty string.\<close>

definition tokens_match :: "request \<Rightarrow> bool" where
  "tokens_match req =
     (case (cookie req ''XSRF-TOKEN'', header req ''x-csrf-token'') of
        (Some (JStr s), Some t) \<Rightarrow> s = t \<and> s \<noteq> []
      | _ \<Rightarrow> False)"

text \<open>The cookies a response sets and clears, by name.\<close>

fun sets_cookie :: "string \<Rightarrow> cookie_op \<Rightarrow> bool" where
  "sets_cookie n (SetCookie m v opts) = (n = m)"
| "sets_cookie n (ClearCookie m opts) = False"

fun clears_cookie :: "string \<Rightarrow> cookie_op \<Rightarrow> bool" where
  "clears_cookie n (ClearCookie m opts) = (n = m)"
| "clears_cookie n (SetCookie m v opts) = False"

definition body_field :: "response \<Rightarrow> string \<Rightarrow> json option" where
  "body_field r k = opt_chain (res_body r) k"

text \<open>A chart-creation request with the given CSRF cookie and header, if any.\<close>

definition post_charts :: "json option \<Rightarrow> string option \<Rightarrow> request" where
  "post_charts c h =
     \<lparr>req_method = ''POST'', req_path = [''api'', ''charts''],
      req_cookies = (case c of None \<Rightarrow> [] | Some v \<Rightarrow> [(''XSRF-TOKEN'', v)]),
      req_headers = (case h of None \<Rightarrow> [] | Some v \<Rightarrow> [(''x-csrf-token'', v)]),
      req_ip = ''127.0.0.1'', req_user = None\<rparr>"

text \<open>Example requests for the closed instances.\<close>

definition plain_request :: "string \<Rightarrow> string list \<Rightarrow> (string \<times> json) list \<Rightarrow> (string \<times> string) list \<Rightarrow> request" where
  "plain_request m p cs hs =
     \<lparr>req_method = m, req_path = p, req_cookies = cs, req_headers = hs,
      req_ip = ''127.0.0.1'', req_user = None\<rparr>"

text \<open>The \<^verbatim>\<open>Set-Cookie\<close> that a mint writes.\<close>

definition csrf_cookie_set :: "string option \<Rightarrow> 8 word list \<Rightarrow> cookie_op" where
  "csrf_cookie_set node_env rnd = SetCookie ''XSRF-TOKEN'' (to_hex rnd) (csrf_cookie_opts node_env)"

text \<open>A verifier for examples: one good token, one expired token, everything else badly signed.\<close>

definition demo_claims :: json where
  "demo_claims = JObj [(''userId'', JStr ''demo-user-123''), (''email'', JStr ''demo@example.com''),
     (''name'', JStr ''Demo User''), (''role'', JStr ''user''), (''iat'', JNum 1700000000)]"

definition demo_verify :: verifier where
  "demo_verify token =
     (if token = JStr ''good'' then Inr demo_claims
      else if token = JStr ''old''
      then Inl \<lparr>err_name = ''TokenExpiredError'', err_message = ''jwt expired'', err_statusCode = None\<rparr>
      else Inl \<lparr>err_name = ''JsonWebTokenError'', err_message = ''invalid signature'', err_statusCode = None\<rparr>)"

text \<open>The response clears the session cookie.\<close>

definition clears_session :: "response \<Rightarrow> bool" where
  "clears_session r = list_ex (clears_cookie COOKIE_NAME) (res_cookies r)"

definition with_session :: "json \<Rightarrow> request" where
  "with_session token = plain_request ''GET'' [''api'', ''auth'', ''me''] [(''authToken'', token)] []"

definition is_logout :: "request \<Rightarrow> bool" where
  "is_logout req = (req_method req = ''POST'' \<and> req_path req = [''api'', ''auth'', ''logout''])"

text \<open>A remainder of the routes for the examples: it answers 404.\<close>

definition not_found :: "request \<Rightarrow> response \<Rightarrow> response" where
  "not_found req res = send_json 404 JNull res"

definition logout_request :: "(string \<times> json) list \<Rightarrow> (string \<times> string) list \<Rightarrow> request" where
  "logout_request cs hs = plain_request ''POST'' [''api'', ''auth'', ''logout''] cs hs"

subsection \<open>Rate limiting\<close>








subsection \<open>Charts\<close>




definition stored_payload :: "js_error + (collection \<times> chart_reply) \<Rightarrow> json option" where
  "stored_payload r =
     (case r of
        Inl e \<Rightarrow> None
      | Inr (db', rep) \<Rightarrow> (case db' (reply_id rep) of None \<Rightarrow> None | Some c \<Rightarrow> plotlyData c))"

definition result_status :: "js_error + (collection \<times> chart_reply) \<Rightarrow> nat option" where
  "result_status r = (case r of Inl e \<Rightarrow> None | Inr (db', rep) \<Rightarrow> Some (reply_status rep))"

definition result_db :: "collection \<Rightarrow> js_error + (collection \<times> chart_reply) \<Rightarrow> collection" where
  "result_db db r = (case r of Inl e \<Rightarrow> db | Inr (db', rep) \<Rightarrow> db')"

definition failure_name :: "js_error + (collection \<times> chart_reply) \<Rightarrow> string option" where
  "failure_name r = (case r of Inl e \<Rightarrow> Some (err_name e) | Inr x \<Rightarrow> None)"

subsection \<open>Examples\<close>

text \<open>
  Stand-ins for the libraries in the closed instances.  \<open>strip_empty\<close> drops the fields
  whose value is an empty object, from the inside out, and keeps the elements of arrays;
  \<open>refuse_cast\<close> is used on objects only, which the String cast refuses;
  \<open>demo_validators\<close> counts, trims and escapes plain ASCII text.
\<close>

fun strip_empty :: "json \<Rightarrow> json option"
  and strip_fields :: "(string \<times> json) list \<Rightarrow> (string \<times> json) list"
  and strip_items :: "json list \<Rightarrow> json list"
where
  "strip_empty (JObj kvs) = (case strip_fields kvs of [] \<Rightarrow> None | kv # kvs' \<Rightarrow> Some (JObj (kv # kvs')))"
| "strip_empty (JArr xs) = Some (JArr (strip_items xs))"
| "strip_empty JNull = Some JNull"
| "strip_empty (JBool b) = Some (JBool b)"
| "strip_empty (JNum n) = Some (JNum n)"
| "strip_empty (JStr s) = Some (JStr s)"
| "strip_fields [] = []"
| "strip_fields (kv # kvs) =
     (case strip_empty (snd kv) of
        None \<Rightarrow> strip_fields kvs
      | Some v \<Rightarrow> (fst kv, v) # strip_fields kvs)"
| "strip_items [] = []"
| "strip_items (x # xs) =
     (case x of
        JObj kvs \<Rightarrow> JObj (strip_fields kvs)
      | JArr ys \<Rightarrow> JArr (strip_items ys)
      | _ \<Rightarrow> x) # strip_items xs"

definition refuse_cast :: "json \<Rightarrow> js_error + string" where
  "refuse_cast v = Inl \<lparr>err_name = ''ValidationError'',
                         err_message = ''Cast to string failed'', err_statusCode = None\<rparr>"

definition demo_odm :: odm where
  "demo_odm = \<lparr>minimize = strip_empty, cast_other = refuse_cast\<rparr>"





text \<open>A verifier that finds one token not yet valid.\<close>

definition early_verify :: verifier where
  "early_verify token =
     (if token = JStr ''early''
      then Inl \<lparr>err_name = ''NotBeforeError'', err_message = ''jwt not active'', err_statusCode = None\<rparr>
      else demo_verify token)"

text \<open>Payloads, bodies, documents and collections.\<close>

definition titled_payload :: "string \<Rightarrow> json" where
  "titled_payload t = JObj
     [(''data'', JArr [JObj [(''x'', JArr [JNum 1, JNum 2, JNum 3]),
                             (''y'', JArr [JNum 1, JNum 4, JNum 9]),
                             (''type'', JStr ''scatter'')]]),
      (''layout'', JObj [(''title'', JObj [(''text'', JStr t)])])]"



definition empty_layout_payload :: json where
  "empty_layout_payload = JObj [(''data'', JArr []), (''layout'', JObj [])]"

definition only_empty_layout :: json where
  "only_empty_layout = JObj [(''layout'', JObj [])]"

definition body_of :: "json \<Rightarrow> string option \<Rightarrow> chart_body" where
  "body_of pd t = \<lparr>body_plotlyData = Some pd, body_chartTitle = t,
                    body_description = None, body_tags = None\<rparr>"


definition id1 :: string where
  "id1 = ''68deb8396db01ec0a708a67b''"

definition id2 :: string where
  "id2 = ''68dec4056db01ec0a708a683''"

definition empty_db :: collection where
  "empty_db = (\<lambda>k. None)"

definition sample_chart :: chart where
  "sample_chart =
     \<lparr>plotlyData = Some (titled_payload ''T''), chartTitle = ''T'', description = Some ''first'',
      tags = [''a'', ''b''], createdAt = 1000, updatedAt = 1000\<rparr>"

definition sample_db :: collection where
  "sample_db = empty_db(id1 \<mapsto> sample_chart)"



text \<open>A stored chart whose payload holds an empty layout, as an update leaves it.\<close>

definition empty_layout_db :: collection where
  "empty_layout_db = result_db sample_db
     (update_chart sample_db id1 2000 (body_of empty_layout_payload None))"





section \<open>Properties of the CSRF guard\<close>

text \<open>The guard in one equation: it passes exactly the safe methods and the matching tokens.\<close>

lemma validateCSRF_cases:
  "validateCSRF req res =
     (if safe_method req \<or> tokens_match req then Next req res
      else Sent (send_json 403 csrf_failure_body res))"
  by (auto simp: validateCSRF_def safe_method_def tokens_match_def truthy_opt_def strict_neq_def Let_def
       split: option.splits json.splits)

lemma tokens_match_present_equal: "tokens_match req \<Longrightarrow> tokens_present_equal req"
  by (auto simp: tokens_match_def tokens_present_equal_def split: option.splits json.splits)

lemma csrf_failure_code:
  "body_field (send_json 403 csrf_failure_body res) ''code'' = Some (JStr ''CSRF_VALIDATION_FAILED'')"
  by (simp add: body_field_def send_json_def csrf_failure_body_def)

lemma app_mutating_api:
  assumes "\<not> safe_method req" "under_api req"
  shows "app node_env rnd1 rnd2 now routes req =
           (if tokens_match req then routes req res0 else send_json 403 csrf_failure_body res0)"
proof -
  from assms(1) have m: "req_method req \<noteq> ''GET''" "req_method req \<noteq> ''HEAD''"
    by (auto simp: safe_method_def)
  from m have a: "autoGenerateCSRF node_env rnd1 req res0 = Next req res0"
    by (simp add: autoGenerateCSRF_def)
  from assms(2) have mo: "mount [''api''] validateCSRF req res0 = validateCSRF req res0"
    by (simp add: mount_def under_api_def)
  show ?thesis
    using m assms(1) by (simp add: app_def a mo and_then_def validateCSRF_cases)
qed

text \<open>
  Claim C1, as the code has it.  For a request whose method is not GET, HEAD or OPTIONS,
  the CSRF guard hands the request on if and only if the \<^verbatim>\<open>XSRF-TOKEN\<close> cookie and the
  \<^verbatim>\<open>X-CSRF-Token\<close> header are both present, not empty and string-equal; otherwise it
  answers 403 with code \<^verbatim>\<open>CSRF_VALIDATION_FAILED\<close>.  Hence a 2xx answer of the application
  to a mutating request under \<^verbatim>\<open>/api\<close>, whatever the routes do, implies that header and
  cookie were equal; and every GET, HEAD or OPTIONS request passes the guard unchecked.
\<close>

theorem csrf_guard:
  "(\<not> safe_method req \<longrightarrow>
      (passes (validateCSRF req res) \<longleftrightarrow> tokens_match req) \<and>
      (\<not> tokens_match req \<longrightarrow>
         validateCSRF req res = Sent (send_json 403 csrf_failure_body res) \<and>
         res_status (stage_response (validateCSRF req res)) = 403 \<and>
         body_field (stage_response (validateCSRF req res)) ''code'' = Some (JStr ''CSRF_VALIDATION_FAILED'')) \<and>
      (tokens_match req \<longrightarrow> validateCSRF req res = Next req res)) \<and>
   (\<not> safe_method req \<and> under_api req \<and> is_2xx (app node_env rnd1 rnd2 now routes req) \<longrightarrow>
      tokens_match req \<and> tokens_present_equal req) \<and>
   (safe_method req \<longrightarrow> validateCSRF req res = Next req res)"
proof (intro conjI impI)
  assume "\<not> safe_method req"
  then show "passes (validateCSRF req res) \<longleftrightarrow> tokens_match req"
    by (simp add: validateCSRF_cases)
next
  assume "\<not> safe_method req" "\<not> tokens_match req"
  then show "validateCSRF req res = Sent (send_json 403 csrf_failure_body res)"
    by (simp add: validateCSRF_cases)
next
  assume "\<not> safe_method req" "\<not> tokens_match req"
  then show "res_status (stage_response (validateCSRF req res)) = 403"
    by (simp add: validateCSRF_cases send_json_def)
next
  assume "\<not> safe_method req" "\<not> tokens_match req"
  then show "body_field (stage_response (validateCSRF req res)) ''code'' = Some (JStr ''CSRF_VALIDATION_FAILED'')"
    by (simp add: validateCSRF_cases csrf_failure_code)
next
  assume "tokens_match req"
  then show "validateCSRF req res = Next req res"
    by (simp add: validateCSRF_cases)
next
  assume h: "\<not> safe_method req \<and> under_api req \<and> is_2xx (app node_env rnd1 rnd2 now routes req)"
  show tm: "tokens_match req"
  proof (rule ccontr)
    assume "\<not> tokens_match req"
    with h have "app node_env rnd1 rnd2 now routes req = send_json 403 csrf_failure_body res0"
      by (simp add: app_mutating_api)
    with h show False by (simp add: is_2xx_def send_json_def)
  qed
  then show "tokens_present_equal req" by (rule tokens_match_present_equal)
next
  assume "safe_method req"
  then show "validateCSRF req res = Next req res"
    by (simp add: validateCSRF_cases)
qed

text \<open>
  Presence alone is not enough: a POST whose cookie and header are both the empty
  string carries two present, string-equal tokens and is rejected.
\<close>

theorem csrf_guard_counterexample:
  "\<not> safe_method (post_charts (Some (JStr '''')) (Some '''')) \<and>
   under_api (post_charts (Some (JStr '''')) (Some '''')) \<and>
   tokens_present_equal (post_charts (Some (JStr '''')) (Some '''')) \<and>
   validateCSRF (post_charts (Some (JStr '''')) (Some '''')) res0
     = Sent (send_json 403 csrf_failure_body res0)"
  by (simp add: post_charts_def safe_method_def under_api_def tokens_present_equal_def
        validateCSRF_def cookie_def header_def truthy_opt_def Let_def)

theorem csrf_guard_witness:
  "\<not> safe_method (post_charts (Some (JStr ''ab'')) (Some ''ab'')) \<and>
   under_api (post_charts (Some (JStr ''ab'')) (Some ''ab'')) \<and>
   tokens_match (post_charts (Some (JStr ''ab'')) (Some ''ab'')) \<and>
   is_2xx (app None [1] [2] ''t'' (\<lambda>req. send_json 201 JNull) (post_charts (Some (JStr ''ab'')) (Some ''ab''))) \<and>
   validateCSRF (post_charts (Some (JStr ''ab'')) (Some ''ab'')) res0
     = Next (post_charts (Some (JStr ''ab'')) (Some ''ab'')) res0 \<and>
   \<not> tokens_match (post_charts (Some (JStr ''ab'')) (Some ''cd'')) \<and>
   res_status (stage_response (validateCSRF (post_charts (Some (JStr ''ab'')) (Some ''cd'')) res0)) = 403 \<and>
   safe_method (post_charts None None\<lparr>req_method := ''GET''\<rparr>) \<and>
   validateCSRF (post_charts None None\<lparr>req_method := ''GET''\<rparr>) res0
     = Next (post_charts None None\<lparr>req_method := ''GET''\<rparr>) res0"
proof -
  let ?ok = "post_charts (Some (JStr ''ab'')) (Some ''ab'')"
  let ?bad = "post_charts (Some (JStr ''ab'')) (Some ''cd'')"
  let ?get = "post_charts None None\<lparr>req_method := ''GET''\<rparr>"
  have m: "\<not> safe_method ?ok" "\<not> safe_method ?bad" "safe_method ?get"
    by (simp_all add: post_charts_def safe_method_def)
  have u: "under_api ?ok" by (simp add: post_charts_def under_api_def)
  have t: "tokens_match ?ok" "\<not> tokens_match ?bad"
    by (simp_all add: post_charts_def tokens_match_def cookie_def header_def)
  have a: "is_2xx (app None [1] [2] ''t'' (\<lambda>req. send_json 201 JNull) ?ok)"
    by (simp add: app_def autoGenerateCSRF_def and_then_def mount_def validateCSRF_def
          post_charts_def cookie_def header_def truthy_opt_def strict_neq_def Let_def
          is_2xx_def send_json_def res0_def)
  show ?thesis
    using m u t a
      csrf_guard [of ?ok res0 None "[1]" "[2]" "''t''" "\<lambda>req. send_json 201 JNull"]
      csrf_guard [of ?bad res0 None "[1]" "[2]" "''t''" "\<lambda>req. send_json 201 JNull"]
      csrf_guard [of ?get res0 None "[1]" "[2]" "''t''" "\<lambda>req. send_json 201 JNull"]
    by (simp add: send_json_def)
qed


text \<open>
  Claim C8.  A mutating request under \<^verbatim>\<open>/api\<close> whose \<^verbatim>\<open>XSRF-TOKEN\<close> cookie and
  \<^verbatim>\<open>X-CSRF-Token\<close> header are both the empty string is rejected with 403 although the two
  values are equal; and since presence is tested by truthiness, a mutating request with
  an empty cookie or an empty header never passes the guard.
\<close>

theorem empty_token_rejected:
  "(\<not> safe_method req \<and> under_api req \<and>
      cookie req ''XSRF-TOKEN'' = Some (JStr []) \<and> header req ''x-csrf-token'' = Some []
      \<longrightarrow> tokens_present_equal req \<and>
          mount [''api''] validateCSRF req res = Sent (send_json 403 csrf_failure_body res) \<and>
          res_status (send_json 403 csrf_failure_body res) = 403) \<and>
   (\<not> safe_method req \<and> under_api req \<and>
      (cookie req ''XSRF-TOKEN'' = Some (JStr []) \<or> header req ''x-csrf-token'' = Some [])
      \<longrightarrow> \<not> passes (mount [''api''] validateCSRF req res))"
  by (auto simp: mount_def under_api_def validateCSRF_def safe_method_def truthy_opt_def
        tokens_present_equal_def send_json_def Let_def)

theorem empty_token_rejected_witness:
  "\<not> safe_method (post_charts (Some (JStr [])) (Some [])) \<and>
   under_api (post_charts (Some (JStr [])) (Some [])) \<and>
   cookie (post_charts (Some (JStr [])) (Some [])) ''XSRF-TOKEN'' = Some (JStr []) \<and>
   header (post_charts (Some (JStr [])) (Some [])) ''x-csrf-token'' = Some [] \<and>
   mount [''api''] validateCSRF (post_charts (Some (JStr [])) (Some [])) res0
     = Sent (send_json 403 csrf_failure_body res0) \<and>
   \<not> passes (mount [''api''] validateCSRF (post_charts (Some (JStr [])) (Some [])) res0)"
proof -
  let ?r = "post_charts (Some (JStr [])) (Some [])"
  have h: "\<not> safe_method ?r" "under_api ?r" "cookie ?r ''XSRF-TOKEN'' = Some (JStr [])"
    "header ?r ''x-csrf-token'' = Some []"
    by (simp_all add: post_charts_def safe_method_def under_api_def cookie_def header_def)
  show ?thesis using h empty_token_rejected [of ?r res0] by simp
qed

section \<open>Token auto-issuance\<close>

lemma to_hex_length: "length (to_hex bs) = 2 * length bs"
  by (induction bs) (simp_all add: to_hex_def)

text \<open>
  Claim C2, as the code has it.  On a GET request whose \<^verbatim>\<open>XSRF-TOKEN\<close> cookie is missing or
  empty the auto-issuance middleware writes a new \<^verbatim>\<open>XSRF-TOKEN\<close> cookie; on every other
  method, HEAD and OPTIONS included, it writes nothing; and on a request that carries a
  non-empty \<^verbatim>\<open>XSRF-TOKEN\<close> cookie it leaves the response as it is, so the cookie is not
  overwritten.
\<close>

theorem auto_issue:
  "(req_method req = ''GET'' \<and> \<not> truthy_opt (cookie req ''XSRF-TOKEN'') \<longrightarrow>
      autoGenerateCSRF node_env rnd req res
        = Next req (res\<lparr>res_cookies := res_cookies res @ [csrf_cookie_set node_env rnd]\<rparr>) \<and>
      sets_cookie ''XSRF-TOKEN'' (last (res_cookies (stage_response (autoGenerateCSRF node_env rnd req res))))) \<and>
   (req_method req \<noteq> ''GET'' \<longrightarrow> autoGenerateCSRF node_env rnd req res = Next req res) \<and>
   (truthy_opt (cookie req ''XSRF-TOKEN'') \<longrightarrow> autoGenerateCSRF node_env rnd req res = Next req res)"
  by (simp add: autoGenerateCSRF_def generateCSRFToken_def csrf_cookie_set_def Let_def)

text \<open>
  HEAD is a safe method, yet a HEAD request without the cookie gets none, from the
  middleware and from the whole stack; and a GET request whose cookie is the empty string
  has it replaced by the new token.
\<close>

theorem auto_issue_counterexample:
  "safe_method (plain_request ''HEAD'' [''api'', ''charts''] [] []) \<and>
   cookie (plain_request ''HEAD'' [''api'', ''charts''] [] []) ''XSRF-TOKEN'' = None \<and>
   res_cookies (stage_response
      (autoGenerateCSRF None [1, 2] (plain_request ''HEAD'' [''api'', ''charts''] [] []) res0)) = [] \<and>
   res_cookies (app None [1, 2] [3, 4] ''t'' (\<lambda>req res. json_reply JNull res)
      (plain_request ''HEAD'' [''api'', ''charts''] [] [])) = [] \<and>
   cookie (plain_request ''GET'' [''api'', ''charts''] [(''XSRF-TOKEN'', JStr [])] []) ''XSRF-TOKEN''
     = Some (JStr []) \<and>
   res_cookies (stage_response
      (autoGenerateCSRF None [1, 2]
         (plain_request ''GET'' [''api'', ''charts''] [(''XSRF-TOKEN'', JStr [])] []) res0))
     = [SetCookie ''XSRF-TOKEN'' ''0102'' (csrf_cookie_opts None)]"
  by (simp add: plain_request_def safe_method_def cookie_def autoGenerateCSRF_def res0_def
        app_def and_then_def mount_def validateCSRF_def json_reply_def truthy_opt_def
        generateCSRFToken_def to_hex_def hex_digit_def Let_def)

theorem auto_issue_witness:
  "req_method (plain_request ''GET'' [''api'', ''charts''] [] []) = ''GET'' \<and>
   \<not> truthy_opt (cookie (plain_request ''GET'' [''api'', ''charts''] [] []) ''XSRF-TOKEN'') \<and>
   res_cookies (stage_response
      (autoGenerateCSRF None [1, 2] (plain_request ''GET'' [''api'', ''charts''] [] []) res0))
     = [csrf_cookie_set None [1, 2]] \<and>
   req_method (plain_request ''HEAD'' [''api'', ''charts''] [] []) \<noteq> ''GET'' \<and>
   autoGenerateCSRF None [1, 2] (plain_request ''HEAD'' [''api'', ''charts''] [] []) res0
     = Next (plain_request ''HEAD'' [''api'', ''charts''] [] []) res0 \<and>
   truthy_opt (cookie (plain_request ''GET'' [''api'', ''charts''] [(''XSRF-TOKEN'', JStr ''ab'')] []) ''XSRF-TOKEN'') \<and>
   autoGenerateCSRF None [1, 2] (plain_request ''GET'' [''api'', ''charts''] [(''XSRF-TOKEN'', JStr ''ab'')] []) res0
     = Next (plain_request ''GET'' [''api'', ''charts''] [(''XSRF-TOKEN'', JStr ''ab'')] []) res0"
proof -
  let ?g = "plain_request ''GET'' [''api'', ''charts''] [] []"
  let ?h = "plain_request ''HEAD'' [''api'', ''charts''] [] []"
  let ?c = "plain_request ''GET'' [''api'', ''charts''] [(''XSRF-TOKEN'', JStr ''ab'')] []"
  have h: "req_method ?g = ''GET''" "\<not> truthy_opt (cookie ?g ''XSRF-TOKEN'')"
    "req_method ?h \<noteq> ''GET''" "truthy_opt (cookie ?c ''XSRF-TOKEN'')"
    by (simp_all add: plain_request_def cookie_def truthy_opt_def)
  show ?thesis
    using h auto_issue [of ?g None "[1, 2]" res0] auto_issue [of ?h None "[1, 2]" res0]
      auto_issue [of ?c None "[1, 2]" res0]
    by (simp add: res0_def)
qed

section \<open>Required authentication\<close>

lemma read_session_no_cookie:
  "\<not> truthy_opt (cookie req COOKIE_NAME) \<Longrightarrow>
     read_session verify req = Inl (createError 401 ''Authentication required - No token provided'')"
  by (simp add: read_session_def truthy_opt_def split: option.splits)

lemma read_session_token:
  "cookie req COOKIE_NAME = Some token \<Longrightarrow> truthy token \<Longrightarrow> read_session verify req = verify token"
  by (simp add: read_session_def)

text \<open>
  Claim C3, as the code has it.  On a route guarded by \<^verbatim>\<open>authenticateToken\<close>: without a
  session cookie (or with an empty one) the answer is 401; when the library rejects the
  token with a \<^verbatim>\<open>JsonWebTokenError\<close> the answer is 401 and no cookie is touched; when the
  token is expired the answer is 401, carries \<^verbatim>\<open>action: 'login_required'\<close>, which the guard
  sends in no other case, and clears the session cookie in the same response; when the
  library fails with any other error the answer has that error's status code, 500 if it
  has none, and no cookie is touched; and the chain goes on exactly when the token
  verifies, with the decoded claims attached to the request.
\<close>

theorem require_auth:
  "(\<not> truthy_opt (cookie req COOKIE_NAME) \<longrightarrow>
      (\<exists>b. authenticateToken node_env verify req res = Sent (send_json 401 b res)) \<and>
      res_status (stage_response (authenticateToken node_env verify req res)) = 401 \<and>
      body_field (stage_response (authenticateToken node_env verify req res)) ''action'' = None) \<and>
   (cookie req COOKIE_NAME = Some token \<and> truthy token \<and> verify token = Inl e \<and>
      err_name e = ''JsonWebTokenError'' \<longrightarrow>
      (\<exists>b. authenticateToken node_env verify req res = Sent (send_json 401 b res)) \<and>
      res_status (stage_response (authenticateToken node_env verify req res)) = 401 \<and>
      res_cookies (stage_response (authenticateToken node_env verify req res)) = res_cookies res \<and>
      body_field (stage_response (authenticateToken node_env verify req res)) ''action'' = None) \<and>
   (cookie req COOKIE_NAME = Some token \<and> truthy token \<and> verify token = Inl e \<and>
      err_name e = ''TokenExpiredError'' \<longrightarrow>
      (\<exists>b. authenticateToken node_env verify req res = Sent (send_json 401 b (clearAuthCookie node_env res))) \<and>
      res_status (stage_response (authenticateToken node_env verify req res)) = 401 \<and>
      clears_session (stage_response (authenticateToken node_env verify req res)) \<and>
      body_field (stage_response (authenticateToken node_env verify req res)) ''action''
        = Some (JStr ''login_required'')) \<and>
   (cookie req COOKIE_NAME = Some token \<and> truthy token \<and> verify token = Inr claims \<longrightarrow>
      authenticateToken node_env verify req res = Next (req\<lparr>req_user := Some claims\<rparr>) res) \<and>
   (authenticateToken node_env verify req res = Sent r \<and>
      body_field r ''action'' = Some (JStr ''login_required'') \<longrightarrow>
      (\<exists>x. read_session verify req = Inl x \<and> err_name x = ''TokenExpiredError'')) \<and>
   (cookie req COOKIE_NAME = Some token \<and> truthy token \<and> verify token = Inl e \<and>
      err_name e \<noteq> ''JsonWebTokenError'' \<and> err_name e \<noteq> ''TokenExpiredError'' \<longrightarrow>
      (\<exists>b. authenticateToken node_env verify req res = Sent (send_json (status_or_500 e) b res)) \<and>
      res_status (stage_response (authenticateToken node_env verify req res)) = status_or_500 e \<and>
      (err_statusCode e = None \<longrightarrow>
         res_status (stage_response (authenticateToken node_env verify req res)) = 500) \<and>
      res_cookies (stage_response (authenticateToken node_env verify req res)) = res_cookies res) \<and>
   (passes (authenticateToken node_env verify req res) \<longleftrightarrow>
      (\<exists>t c. cookie req COOKIE_NAME = Some t \<and> truthy t \<and> verify t = Inr c))"
proof (intro conjI impI)
  assume h: "\<not> truthy_opt (cookie req COOKIE_NAME)"
  have a: "authenticateToken node_env verify req res
     = Sent (send_json 401 (JObj [(''success'', JBool False),
          (''error'', JStr ''Authentication required - No token provided'')]) res)"
    by (simp add: authenticateToken_def read_session_no_cookie [OF h] createError_def
          status_or_500_def message_or_def)
  show "\<exists>b. authenticateToken node_env verify req res = Sent (send_json 401 b res)"
    using a by blast
  show "res_status (stage_response (authenticateToken node_env verify req res)) = 401"
    by (simp add: a send_json_def)
  show "body_field (stage_response (authenticateToken node_env verify req res)) ''action'' = None"
    by (simp add: a send_json_def body_field_def)
next
  assume h: "cookie req COOKIE_NAME = Some token \<and> truthy token \<and> verify token = Inl e \<and>
      err_name e = ''JsonWebTokenError''"
  then have r: "read_session verify req = Inl e" by (simp add: read_session_token)
  have a: "authenticateToken node_env verify req res
     = Sent (send_json 401 (JObj [(''success'', JBool False),
          (''error'', JStr ''Invalid authentication token'')]) res)"
    using h by (simp add: authenticateToken_def r)
  show "\<exists>b. authenticateToken node_env verify req res = Sent (send_json 401 b res)"
    using a by blast
  show "res_status (stage_response (authenticateToken node_env verify req res)) = 401"
    by (simp add: a send_json_def)
  show "res_cookies (stage_response (authenticateToken node_env verify req res)) = res_cookies res"
    by (simp add: a send_json_def)
  show "body_field (stage_response (authenticateToken node_env verify req res)) ''action'' = None"
    by (simp add: a send_json_def body_field_def)
next
  assume h: "cookie req COOKIE_NAME = Some token \<and> truthy token \<and> verify token = Inl e \<and>
      err_name e = ''TokenExpiredError''"
  then have r: "read_session verify req = Inl e" by (simp add: read_session_token)
  have a: "authenticateToken node_env verify req res
     = Sent (send_json 401 (JObj [(''success'', JBool False),
          (''error'', JStr ''Authentication token expired''),
          (''action'', JStr ''login_required'')]) (clearAuthCookie node_env res))"
    using h by (simp add: authenticateToken_def r)
  show "\<exists>b. authenticateToken node_env verify req res = Sent (send_json 401 b (clearAuthCookie node_env res))"
    using a by blast
  show "res_status (stage_response (authenticateToken node_env verify req res)) = 401"
    by (simp add: a send_json_def)
  show "clears_session (stage_response (authenticateToken node_env verify req res))"
    by (simp add: a send_json_def clears_session_def clearAuthCookie_def)
  show "body_field (stage_response (authenticateToken node_env verify req res)) ''action''
        = Some (JStr ''login_required'')"
    by (simp add: a send_json_def body_field_def)
next
  assume h: "cookie req COOKIE_NAME = Some token \<and> truthy token \<and> verify token = Inr claims"
  then have r: "read_session verify req = Inr claims" by (simp add: read_session_token)
  show "authenticateToken node_env verify req res = Next (req\<lparr>req_user := Some claims\<rparr>) res"
    by (simp add: authenticateToken_def r)
next
  assume "authenticateToken node_env verify req res = Sent r \<and>
      body_field r ''action'' = Some (JStr ''login_required'')"
  then show "\<exists>x. read_session verify req = Inl x \<and> err_name x = ''TokenExpiredError''"
    by (auto simp: authenticateToken_def body_field_def send_json_def
          split: sum.splits if_splits)
next
  assume h: "cookie req COOKIE_NAME = Some token \<and> truthy token \<and> verify token = Inl e \<and>
      err_name e \<noteq> ''JsonWebTokenError'' \<and> err_name e \<noteq> ''TokenExpiredError''"
  then have r: "read_session verify req = Inl e" by (simp add: read_session_token)
  have a: "authenticateToken node_env verify req res
     = Sent (send_json (status_or_500 e) (JObj [(''success'', JBool False),
          (''error'', JStr (message_or e ''Authentication failed''))]) res)"
    using h by (simp add: authenticateToken_def r)
  show "\<exists>b. authenticateToken node_env verify req res = Sent (send_json (status_or_500 e) b res)"
    using a by blast
  show "res_status (stage_response (authenticateToken node_env verify req res)) = status_or_500 e"
    by (simp add: a send_json_def)
  show "res_cookies (stage_response (authenticateToken node_env verify req res)) = res_cookies res"
    by (simp add: a send_json_def)
  {
    assume "err_statusCode e = None"
    then show "res_status (stage_response (authenticateToken node_env verify req res)) = 500"
      by (simp add: a send_json_def status_or_500_def)
  }
next
  show "passes (authenticateToken node_env verify req res) \<longleftrightarrow>
      (\<exists>t c. cookie req COOKIE_NAME = Some t \<and> truthy t \<and> verify t = Inr c)"
    by (auto simp: authenticateToken_def read_session_def split: sum.splits option.splits if_splits)
qed

text \<open>
  A token that the library finds not yet valid is present, not badly signed and not
  expired; the guard answers 500 and the handler does not run.
\<close>

theorem require_auth_counterexample:
  "cookie (with_session (JStr ''early'')) COOKIE_NAME = Some (JStr ''early'') \<and>
   truthy (JStr ''early'') \<and>
   early_verify (JStr ''early'')
     = Inl \<lparr>err_name = ''NotBeforeError'', err_message = ''jwt not active'', err_statusCode = None\<rparr> \<and>
   \<not> passes (authenticateToken None early_verify (with_session (JStr ''early'')) res0) \<and>
   res_status (stage_response (authenticateToken None early_verify (with_session (JStr ''early'')) res0))
     = 500"
  by (simp add: with_session_def plain_request_def cookie_def COOKIE_NAME_def early_verify_def
        authenticateToken_def read_session_def status_or_500_def send_json_def res0_def)

theorem require_auth_witness:
  "\<not> truthy_opt (cookie (plain_request ''GET'' [''api'', ''auth'', ''me''] [] []) COOKIE_NAME) \<and>
   res_status (stage_response (authenticateToken None demo_verify
      (plain_request ''GET'' [''api'', ''auth'', ''me''] [] []) res0)) = 401 \<and>
   cookie (with_session (JStr ''forged'')) COOKIE_NAME = Some (JStr ''forged'') \<and>
   truthy (JStr ''forged'') \<and>
   res_status (stage_response (authenticateToken None demo_verify (with_session (JStr ''forged'')) res0)) = 401 \<and>
   res_cookies (stage_response (authenticateToken None demo_verify (with_session (JStr ''forged'')) res0)) = [] \<and>
   cookie (with_session (JStr ''old'')) COOKIE_NAME = Some (JStr ''old'') \<and>
   truthy (JStr ''old'') \<and>
   res_status (stage_response (authenticateToken None demo_verify (with_session (JStr ''old'')) res0)) = 401 \<and>
   clears_session (stage_response (authenticateToken None demo_verify (with_session (JStr ''old'')) res0)) \<and>
   cookie (with_session (JStr ''good'')) COOKIE_NAME = Some (JStr ''good'') \<and>
   truthy (JStr ''good'') \<and>
   demo_verify (JStr ''good'') = Inr demo_claims \<and>
   authenticateToken None demo_verify (with_session (JStr ''good'')) res0
     = Next (with_session (JStr ''good'')\<lparr>req_user := Some demo_claims\<rparr>) res0 \<and>
   body_field (stage_response (authenticateToken None demo_verify (with_session (JStr ''old'')) res0))
     ''action'' = Some (JStr ''login_required'') \<and>
   (\<exists>x. read_session demo_verify (with_session (JStr ''old'')) = Inl x \<and>
      err_name x = ''TokenExpiredError'') \<and>
   cookie (with_session (JStr ''early'')) COOKIE_NAME = Some (JStr ''early'') \<and>
   early_verify (JStr ''early'')
     = Inl \<lparr>err_name = ''NotBeforeError'', err_message = ''jwt not active'', err_statusCode = None\<rparr> \<and>
   res_status (stage_response (authenticateToken None early_verify (with_session (JStr ''early'')) res0))
     = 500 \<and>
   passes (authenticateToken None demo_verify (with_session (JStr ''good'')) res0)"
proof -
  let ?none = "plain_request ''GET'' [''api'', ''auth'', ''me''] [] []"
  let ?bad = "\<lparr>err_name = ''JsonWebTokenError'', err_message = ''invalid signature'', err_statusCode = None\<rparr>"
  let ?exp = "\<lparr>err_name = ''TokenExpiredError'', err_message = ''jwt expired'', err_statusCode = None\<rparr>"
  have c0: "\<not> truthy_opt (cookie ?none COOKIE_NAME)"
    by (simp add: plain_request_def cookie_def truthy_opt_def)
  have c: "cookie (with_session (JStr ''forged'')) COOKIE_NAME = Some (JStr ''forged'')"
    "cookie (with_session (JStr ''old'')) COOKIE_NAME = Some (JStr ''old'')"
    "cookie (with_session (JStr ''good'')) COOKIE_NAME = Some (JStr ''good'')"
    by (simp_all add: with_session_def plain_request_def cookie_def COOKIE_NAME_def)
  have v: "demo_verify (JStr ''forged'') = Inl ?bad" "demo_verify (JStr ''old'') = Inl ?exp"
    "demo_verify (JStr ''good'') = Inr demo_claims"
    by (simp_all add: demo_verify_def)
  have s: "authenticateToken None demo_verify (with_session (JStr ''old'')) res0
      = Sent (stage_response (authenticateToken None demo_verify (with_session (JStr ''old'')) res0))"
    by (simp add: authenticateToken_def read_session_def c v)
  let ?nbf = "\<lparr>err_name = ''NotBeforeError'', err_message = ''jwt not active'', err_statusCode = None\<rparr>"
  have ce: "cookie (with_session (JStr ''early'')) COOKIE_NAME = Some (JStr ''early'')"
    by (simp add: with_session_def plain_request_def cookie_def COOKIE_NAME_def)
  have ve: "early_verify (JStr ''early'') = Inl ?nbf"
    by (simp add: early_verify_def)
  note n = require_auth [where req = "with_session (JStr ''early'')" and verify = early_verify
        and node_env = None and res = res0 and token = "JStr ''early''" and e = ?nbf
        and claims = demo_claims]
  have e500: "res_status (stage_response
      (authenticateToken None early_verify (with_session (JStr ''early'')) res0)) = 500"
    using n ce ve by (simp add: status_or_500_def)
  show ?thesis
    using c0 c v s ce ve e500
      require_auth [where req = ?none and verify = demo_verify and node_env = None and res = res0
        and token = "JStr ''x''" and e = ?bad and claims = demo_claims]
      require_auth [where req = "with_session (JStr ''forged'')" and verify = demo_verify
        and node_env = None and res = res0 and token = "JStr ''forged''" and e = ?bad
        and claims = demo_claims]
      require_auth [where req = "with_session (JStr ''old'')" and verify = demo_verify
        and node_env = None and res = res0 and token = "JStr ''old''" and e = ?exp
        and claims = demo_claims
        and r = "stage_response (authenticateToken None demo_verify (with_session (JStr ''old'')) res0)"]
      require_auth [where req = "with_session (JStr ''good'')" and verify = demo_verify
        and node_env = None and res = res0 and token = "JStr ''good''" and e = ?bad
        and claims = demo_claims]
    by (simp add: res0_def)
qed

section \<open>Logout\<close>

lemma is_logout_mutating: "is_logout req \<Longrightarrow> \<not> safe_method req \<and> under_api req"
  by (simp add: is_logout_def safe_method_def under_api_def)

lemma optionalAuth_passes: "\<exists>u. optionalAuth verify req res = Next (req\<lparr>req_user := u\<rparr>) res"
proof (cases "cookie req COOKIE_NAME")
  case None
  then have "optionalAuth verify req res = Next (req\<lparr>req_user := req_user req\<rparr>) res"
    by (simp add: optionalAuth_def)
  then show ?thesis by blast
next
  case (Some token)
  show ?thesis
  proof (cases "truthy token")
    case False
    with Some have "optionalAuth verify req res = Next (req\<lparr>req_user := req_user req\<rparr>) res"
      by (simp add: optionalAuth_def)
    then show ?thesis by blast
  next
    case True
    show ?thesis
    proof (cases "verify token")
      case (Inl e)
      with Some True have "optionalAuth verify req res = Next (req\<lparr>req_user := req_user req\<rparr>) res"
        by (simp add: optionalAuth_def)
      then show ?thesis by blast
    next
      case (Inr d)
      with Some True have "optionalAuth verify req res = Next (req\<lparr>req_user := Some d\<rparr>) res"
        by (simp add: optionalAuth_def)
      then show ?thesis by blast
    qed
  qed
qed

lemma logout_route_reply:
  assumes "is_logout req"
  shows "logout_route node_env verify now rest req res
           = json_reply (JObj
               [(''success'', JBool True),
                (''message'', JStr ''Logout successful''),
                (''data'', JObj [(''loggedOut'', JBool True)]),
                (''meta'', JObj [(''timestamp'', JStr now)])]) (clearAuthCookie node_env res)"
proof -
  obtain u where "optionalAuth verify req res = Next (req\<lparr>req_user := u\<rparr>) res"
    using optionalAuth_passes by blast
  with assms show ?thesis
    by (simp add: logout_route_def is_logout_def and_then_def logout_handler_def)
qed

text \<open>
  Claim C4, as the code has it.  A POST to \<^verbatim>\<open>/api/auth/logout\<close> that passes the CSRF guard
  is answered 200 with the session cookie cleared, whatever the session token is:
  valid, invalid or missing.  The route itself, once reached, never fails.
\<close>

theorem logout_after_csrf:
  "(is_logout req \<and> tokens_match req \<longrightarrow>
      res_status (app node_env rnd1 rnd2 now (logout_route node_env verify now rest) req) = 200 \<and>
      clears_session (app node_env rnd1 rnd2 now (logout_route node_env verify now rest) req) \<and>
      body_field (app node_env rnd1 rnd2 now (logout_route node_env verify now rest) req) ''success''
        = Some (JBool True)) \<and>
   (is_logout req \<longrightarrow>
      res_status (logout_route node_env verify now rest req res0) = 200 \<and>
      clears_session (logout_route node_env verify now rest req res0))"
proof (intro conjI impI)
  assume h: "is_logout req \<and> tokens_match req"
  then have a: "app node_env rnd1 rnd2 now (logout_route node_env verify now rest) req
      = logout_route node_env verify now rest req res0"
    using is_logout_mutating [of req] by (simp add: app_mutating_api)
  from h show "res_status (app node_env rnd1 rnd2 now (logout_route node_env verify now rest) req) = 200"
    by (simp add: a logout_route_reply json_reply_def clearAuthCookie_def res0_def)
  from h show "clears_session (app node_env rnd1 rnd2 now (logout_route node_env verify now rest) req)"
    by (simp add: a logout_route_reply json_reply_def clearAuthCookie_def clears_session_def)
  from h show "body_field (app node_env rnd1 rnd2 now (logout_route node_env verify now rest) req) ''success''
        = Some (JBool True)"
    by (simp add: a logout_route_reply json_reply_def body_field_def)
next
  assume h: "is_logout req"
  then show "res_status (logout_route node_env verify now rest req res0) = 200"
    by (simp add: logout_route_reply json_reply_def clearAuthCookie_def res0_def)
  from h show "clears_session (logout_route node_env verify now rest req res0)"
    by (simp add: logout_route_reply json_reply_def clearAuthCookie_def clears_session_def)
qed

text \<open>
  Logout is a POST under \<^verbatim>\<open>/api\<close>, so the CSRF guard comes first: without the CSRF
  header the answer is 403 and the session cookie stays, even with a valid session.
\<close>

theorem logout_counterexample:
  "is_logout (logout_request [(''authToken'', JStr ''good'')] []) \<and>
   res_status (app None [1] [2] ''t'' (logout_route None demo_verify ''t'' not_found)
      (logout_request [(''authToken'', JStr ''good'')] [])) = 403 \<and>
   \<not> clears_session (app None [1] [2] ''t'' (logout_route None demo_verify ''t'' not_found)
      (logout_request [(''authToken'', JStr ''good'')] []))"
  by (simp add: is_logout_def logout_request_def plain_request_def app_def autoGenerateCSRF_def
        and_then_def mount_def validateCSRF_def cookie_def header_def truthy_opt_def
        send_json_def res0_def clears_session_def Let_def)

theorem logout_after_csrf_witness:
  "is_logout (logout_request [(''XSRF-TOKEN'', JStr ''ab''), (''authToken'', JStr ''forged'')]
                [(''x-csrf-token'', ''ab'')]) \<and>
   tokens_match (logout_request [(''XSRF-TOKEN'', JStr ''ab''), (''authToken'', JStr ''forged'')]
                [(''x-csrf-token'', ''ab'')]) \<and>
   res_status (app None [1] [2] ''t'' (logout_route None demo_verify ''t'' not_found)
      (logout_request [(''XSRF-TOKEN'', JStr ''ab''), (''authToken'', JStr ''forged'')]
                [(''x-csrf-token'', ''ab'')])) = 200 \<and>
   clears_session (app None [1] [2] ''t'' (logout_route None demo_verify ''t'' not_found)
      (logout_request [(''XSRF-TOKEN'', JStr ''ab''), (''authToken'', JStr ''forged'')]
                [(''x-csrf-token'', ''ab'')]))"
proof -
  let ?r = "logout_request [(''XSRF-TOKEN'', JStr ''ab''), (''authToken'', JStr ''forged'')]
                [(''x-csrf-token'', ''ab'')]"
  have h: "is_logout ?r" "tokens_match ?r"
    by (simp_all add: is_logout_def logout_request_def plain_request_def tokens_match_def
          cookie_def header_def)
  show ?thesis
    using h logout_after_csrf [where req = ?r and node_env = None and ?rnd1.0 = "[1]"
        and ?rnd2.0 = "[2]" and now = "''t''" and verify = demo_verify and rest = not_found]
    by simp
qed

section \<open>Strict rate limiter\<close>






lemma run_limiter_length: "length (run_limiter st evs) = length evs"
  by (induction evs arbitrary: st) (simp_all add: Let_def split: prod.splits)





section \<open>Listing and pagination\<close>








section \<open>Title derivation\<close>








section \<open>Update\<close>







section \<open>Duplication\<close>

lemma duplicate_saved:
  assumes "db cid = Some c" "plotlyData c = Some pd" "pd \<noteq> JNull" "db nid = None"
  shows "duplicate_chart lib db cid nid now
     = Inr (db(nid \<mapsto> \<lparr>plotlyData = minimize lib pd, chartTitle = chartTitle c @ '' (Copy)'',
                          description = description c, tags = tags c,
                          createdAt = now, updatedAt = now\<rparr>),
            \<lparr>reply_status = 201, reply_message = ''Chart duplicated successfully'',
             reply_id = nid,
             reply_chart = \<lparr>plotlyData = minimize lib pd, chartTitle = chartTitle c @ '' (Copy)'',
                             description = description c, tags = tags c,
                             createdAt = now, updatedAt = now\<rparr>\<rparr>)"
  using assms by (simp add: duplicate_chart_def save_new_def Let_def)

lemma duplicate_without_payload:
  assumes "db cid = Some c" "plotlyData c = None \<or> plotlyData c = Some JNull"
  shows "failure_name (duplicate_chart lib db cid nid now) = Some ''ValidationError''"
  using assms by (auto simp: duplicate_chart_def save_new_def failure_name_def Let_def)

text \<open>
  Claim C10, as the code has it.  Duplicating an existing chart with title \<open>t\<close> whose
  stored payload is present and is one that the store's minimizing on save leaves as it
  is (it holds no empty object), under a freshly minted identifier, answers 201 and
  stores a new chart whose title is \<open>t\<close> followed by \<^verbatim>\<open> (Copy)\<close> and whose payload,
  description and tags are those of the original; the original and every other document
  stay as they were.  In general the copy holds the minimized payload of the original,
  and a chart that is stored without a payload cannot be duplicated.
\<close>

theorem duplicate_copy:
  "(db cid = Some c \<and> plotlyData c = Some pd \<and> pd \<noteq> JNull \<and> minimize lib pd = Some pd \<and>
      db nid = None \<longrightarrow>
      (\<exists>db' r. duplicate_chart lib db cid nid now = Inr (db', r) \<and>
         reply_status r = 201 \<and> reply_id r = nid \<and> db' nid = Some (reply_chart r) \<and>
         chartTitle (reply_chart r) = chartTitle c @ '' (Copy)'' \<and>
         plotlyData (reply_chart r) = plotlyData c \<and>
         description (reply_chart r) = description c \<and>
         tags (reply_chart r) = tags c \<and>
         nid \<noteq> cid \<and> db' cid = Some c \<and>
         (\<forall>k. k \<noteq> nid \<longrightarrow> db' k = db k))) \<and>
   (db cid = Some c \<and> plotlyData c = Some pd \<and> pd \<noteq> JNull \<and> db nid = None \<longrightarrow>
      (\<exists>db' r. duplicate_chart lib db cid nid now = Inr (db', r) \<and>
         reply_status r = 201 \<and> db' nid = Some (reply_chart r) \<and>
         chartTitle (reply_chart r) = chartTitle c @ '' (Copy)'' \<and>
         plotlyData (reply_chart r) = minimize lib pd \<and>
         description (reply_chart r) = description c \<and>
         tags (reply_chart r) = tags c \<and>
         db' cid = Some c \<and>
         (\<forall>k. k \<noteq> nid \<longrightarrow> db' k = db k))) \<and>
   (db cid = Some c \<and> (plotlyData c = None \<or> plotlyData c = Some JNull) \<longrightarrow>
      failure_name (duplicate_chart lib db cid nid now) = Some ''ValidationError'')"
proof (intro conjI impI)
  assume h: "db cid = Some c \<and> plotlyData c = Some pd \<and> pd \<noteq> JNull \<and> minimize lib pd = Some pd \<and>
      db nid = None"
  then have n: "nid \<noteq> cid" by auto
  from h have d: "duplicate_chart lib db cid nid now
     = Inr (db(nid \<mapsto> \<lparr>plotlyData = minimize lib pd, chartTitle = chartTitle c @ '' (Copy)'',
                          description = description c, tags = tags c,
                          createdAt = now, updatedAt = now\<rparr>),
            \<lparr>reply_status = 201, reply_message = ''Chart duplicated successfully'',
             reply_id = nid,
             reply_chart = \<lparr>plotlyData = minimize lib pd, chartTitle = chartTitle c @ '' (Copy)'',
                             description = description c, tags = tags c,
                             createdAt = now, updatedAt = now\<rparr>\<rparr>)"
    by (simp add: duplicate_saved)
  show "\<exists>db' r. duplicate_chart lib db cid nid now = Inr (db', r) \<and>
         reply_status r = 201 \<and> reply_id r = nid \<and> db' nid = Some (reply_chart r) \<and>
         chartTitle (reply_chart r) = chartTitle c @ '' (Copy)'' \<and>
         plotlyData (reply_chart r) = plotlyData c \<and>
         description (reply_chart r) = description c \<and>
         tags (reply_chart r) = tags c \<and>
         nid \<noteq> cid \<and> db' cid = Some c \<and>
         (\<forall>k. k \<noteq> nid \<longrightarrow> db' k = db k)"
    using h n by (simp add: d)
next
  assume h: "db cid = Some c \<and> plotlyData c = Some pd \<and> pd \<noteq> JNull \<and> db nid = None"
  then have n: "nid \<noteq> cid" by auto
  from h have d: "duplicate_chart lib db cid nid now
     = Inr (db(nid \<mapsto> \<lparr>plotlyData = minimize lib pd, chartTitle = chartTitle c @ '' (Copy)'',
                          description = description c, tags = tags c,
                          createdAt = now, updatedAt = now\<rparr>),
            \<lparr>reply_status = 201, reply_message = ''Chart duplicated successfully'',
             reply_id = nid,
             reply_chart = \<lparr>plotlyData = minimize lib pd, chartTitle = chartTitle c @ '' (Copy)'',
                             description = description c, tags = tags c,
                             createdAt = now, updatedAt = now\<rparr>\<rparr>)"
    by (simp add: duplicate_saved)
  show "\<exists>db' r. duplicate_chart lib db cid nid now = Inr (db', r) \<and>
         reply_status r = 201 \<and> db' nid = Some (reply_chart r) \<and>
         chartTitle (reply_chart r) = chartTitle c @ '' (Copy)'' \<and>
         plotlyData (reply_chart r) = minimize lib pd \<and>
         description (reply_chart r) = description c \<and>
         tags (reply_chart r) = tags c \<and>
         db' cid = Some c \<and>
         (\<forall>k. k \<noteq> nid \<longrightarrow> db' k = db k)"
    using h n by (simp add: d)
next
  assume "db cid = Some c \<and> (plotlyData c = None \<or> plotlyData c = Some JNull)"
  then show "failure_name (duplicate_chart lib db cid nid now) = Some ''ValidationError''"
    using duplicate_without_payload by blast
qed

text \<open>
  An update stores a payload with an empty layout as it is; the copy of that chart is
  stored without the layout, so the payloads differ.  And a chart created from a valid
  payload that holds nothing but an empty layout is stored without a payload; its
  duplication fails the schema's validation and creates nothing.
\<close>

theorem duplicate_copy_counterexample:
  "stored_payload (update_chart sample_db id1 2000 (body_of empty_layout_payload None))
     = Some empty_layout_payload \<and>
   result_status (duplicate_chart demo_odm empty_layout_db id1 id2 3000) = Some 201 \<and>
   stored_payload (duplicate_chart demo_odm empty_layout_db id1 id2 3000)
     = Some (JObj [(''data'', JArr [])]) \<and>
   JObj [(''data'', JArr [])] \<noteq> empty_layout_payload \<and>
   isValidPlotlyData only_empty_layout \<and>
   result_status (create_chart demo_odm empty_db id1 1000 (body_of only_empty_layout None)) = Some 201 \<and>
   stored_payload (create_chart demo_odm empty_db id1 1000 (body_of only_empty_layout None)) = None \<and>
   failure_name (duplicate_chart demo_odm
       (result_db empty_db (create_chart demo_odm empty_db id1 1000 (body_of only_empty_layout None)))
       id1 id2 3000) = Some ''ValidationError''"
  by (simp add: empty_layout_db_def result_db_def update_chart_def findByIdAndUpdate_def
        build_update_def apply_update_def body_of_def empty_layout_payload_def
        only_empty_layout_def truthy_opt_def sample_db_def sample_chart_def
        stored_payload_def result_status_def failure_name_def
        duplicate_chart_def create_chart_def derive_title_def js_or_def castString_def
        save_new_def demo_odm_def empty_db_def id1_def id2_def isValidPlotlyData_def Let_def)

theorem duplicate_copy_witness:
  "sample_db id1 = Some sample_chart \<and>
   plotlyData sample_chart = Some (titled_payload ''T'') \<and>
   titled_payload ''T'' \<noteq> JNull \<and>
   minimize demo_odm (titled_payload ''T'') = Some (titled_payload ''T'') \<and>
   sample_db id2 = None \<and>
   (\<exists>db' r. duplicate_chart demo_odm sample_db id1 id2 3000 = Inr (db', r) \<and>
      reply_status r = 201 \<and> db' id2 = Some (reply_chart r) \<and>
      chartTitle (reply_chart r) = ''T (Copy)'' \<and>
      plotlyData (reply_chart r) = Some (titled_payload ''T'') \<and>
      description (reply_chart r) = Some ''first'' \<and>
      tags (reply_chart r) = [''a'', ''b''] \<and>
      db' id1 = Some sample_chart)"
proof -
  have h1: "sample_db id1 = Some sample_chart" by (simp add: sample_db_def)
  have h2: "plotlyData sample_chart = Some (titled_payload ''T'')" by (simp add: sample_chart_def)
  have h3: "titled_payload ''T'' \<noteq> JNull" by (simp add: titled_payload_def)
  have h4: "minimize demo_odm (titled_payload ''T'') = Some (titled_payload ''T'')"
    by (simp add: demo_odm_def titled_payload_def)
  have h5: "sample_db id2 = None" by (simp add: sample_db_def empty_db_def id1_def id2_def)
  have c: "chartTitle sample_chart = ''T''" "tags sample_chart = [''a'', ''b'']"
    "description sample_chart = Some ''first''"
    by (simp_all add: sample_chart_def)
  note t = duplicate_copy [where db = sample_db and cid = id1 and c = sample_chart
      and pd = "titled_payload ''T''" and lib = demo_odm and nid = id2 and now = 3000,
      THEN conjunct1, THEN mp, OF conjI [OF h1 conjI [OF h2 conjI [OF h3 conjI [OF h4 h5]]]]]
  from t obtain db' r where x:
    "duplicate_chart demo_odm sample_db id1 id2 3000 = Inr (db', r) \<and>
         reply_status r = 201 \<and> reply_id r = id2 \<and> db' id2 = Some (reply_chart r) \<and>
         chartTitle (reply_chart r) = chartTitle sample_chart @ '' (Copy)'' \<and>
         plotlyData (reply_chart r) = plotlyData sample_chart \<and>
         description (reply_chart r) = description sample_chart \<and>
         tags (reply_chart r) = tags sample_chart \<and>
         id2 \<noteq> id1 \<and> db' id1 = Some sample_chart \<and>
         (\<forall>k. k \<noteq> id2 \<longrightarrow> db' k = sample_db k)"
    by (elim exE)
  have y: "duplicate_chart demo_odm sample_db id1 id2 3000 = Inr (db', r) \<and>
      reply_status r = 201 \<and> db' id2 = Some (reply_chart r) \<and>
      chartTitle (reply_chart r) = ''T (Copy)'' \<and>
      plotlyData (reply_chart r) = Some (titled_payload ''T'') \<and>
      description (reply_chart r) = Some ''first'' \<and>
      tags (reply_chart r) = [''a'', ''b''] \<and>
      db' id1 = Some sample_chart"
    using x by (simp add: c h2)
  then have a: "\<exists>db' r. duplicate_chart demo_odm sample_db id1 id2 3000 = Inr (db', r) \<and>
      reply_status r = 201 \<and> db' id2 = Some (reply_chart r) \<and>
      chartTitle (reply_chart r) = ''T (Copy)'' \<and>
      plotlyData (reply_chart r) = Some (titled_payload ''T'') \<and>
      description (reply_chart r) = Some ''first'' \<and>
      tags (reply_chart r) = [''a'', ''b''] \<and>
      db' id1 = Some sample_chart"
    by (intro exI)
  show ?thesis
    by (intro conjI) (rule h1 h2 h3 h4 h5 a)+
qed


end
